theory Spec2Isabelle
  imports Complex_Main
begin

section \<open>Strings\<close>

text \<open>
  Python strings are sequences of code points; here a string is a \<^typ>\<open>string\<close>, read as
  the UTF-8 bytes of the Python string. The operations modelled below only look for ASCII
  characters (\<open>/\<close>, \<open>_\<close>, the class \<open>[0-9a-zA-Z_\-]\<close>, the needles \<open>overview\<close>,
  \<open>.html\<close>, \<open>text/html\<close>), and every byte of a non-ASCII code point is outside ASCII, so a
  run of code points outside the class is a run of bytes outside the class.
\<close>

definition in_range :: "char \<Rightarrow> char \<Rightarrow> char \<Rightarrow> bool" where
  "in_range lo hi c = ((of_char lo :: nat) \<le> of_char c \<and> (of_char c :: nat) \<le> of_char hi)"

text \<open>The character class \<open>[0-9a-zA-Z_\-]\<close> of line 51.\<close>

definition slug_char :: "char \<Rightarrow> bool" where
  "slug_char c =
     (in_range (CHR ''0'') (CHR ''9'') c \<or> in_range (CHR ''a'') (CHR ''z'') c
      \<or> in_range (CHR ''A'') (CHR ''Z'') c \<or> c = CHR ''_'' \<or> c = CHR ''-'')"

definition slug_alphabet :: string where
  "slug_alphabet = ''0123456789abcdefghijklmnopqrstuvwxyzABCDEFGHIJKLMNOPQRSTUVWXYZ_-''"

text \<open>\<open>re.sub(r"[^0-9a-zA-Z_\-]+", "_", slug)\<close>: every maximal run of characters outside
  the class becomes one underscore.\<close>

function re_sub :: "string \<Rightarrow> string" where
  "re_sub [] = []"
| "re_sub (c # cs) =
     (if slug_char c then c # re_sub cs
      else CHR ''_'' # re_sub (dropWhile (\<lambda>d. \<not> slug_char d) cs))"
  by pat_completeness auto
termination
  by (relation "measure length") (auto simp: le_imp_less_Suc length_dropWhile_le)

text \<open>\<open>s.strip("_")\<close>.\<close>

definition strip_underscores :: "string \<Rightarrow> string" where
  "strip_underscores s =
     rev (dropWhile (\<lambda>c. c = CHR ''_'') (rev (dropWhile (\<lambda>c. c = CHR ''_'') s)))"

text \<open>\<open>s.split("/")\<close> with an explicit separator: the empty string gives \<open>[""]\<close>.\<close>

fun split_slash :: "string \<Rightarrow> string list" where
  "split_slash [] = [[]]"
| "split_slash (c # cs) =
     (if c = CHR ''/'' then [] # split_slash cs
      else (case split_slash cs of [] \<Rightarrow> [[c]] | seg # segs \<Rightarrow> (c # seg) # segs))"

text \<open>\<open>str(n)\<close> for an integer, and \<open>int(x)\<close> for a float, which truncates towards zero.
  A finite float is a rational number, and \<open>time.time()\<close> returns a finite float.\<close>

fun digits :: "nat \<Rightarrow> string" where
  "digits n =
     (if n < 10 then [''0123456789'' ! n]
      else digits (n div 10) @ [''0123456789'' ! (n mod 10)])"

definition str_int :: "int \<Rightarrow> string" where
  "str_int i = (if i < 0 then CHR ''-'' # digits (nat (- i)) else digits (nat i))"

definition py_int :: "real \<Rightarrow> int" where
  "py_int x = (if 0 \<le> x then \<lfloor>x\<rfloor> else \<lceil>x\<rceil>)"

text \<open>\<open>s.lower()\<close> on the ASCII letters, \<open>needle in s\<close>, \<open>s.endswith(suffix)\<close>,
  \<open>s.startswith(prefix)\<close>, and \<open>x or ""\<close> for a string that may be \<open>None\<close>.
  Python's \<open>lower\<close> also maps code points outside ASCII; two of them give an ASCII
  letter (the Kelvin sign gives \<open>k\<close>, the dotted capital I gives \<open>i\<close> followed by a
  combining dot), and neither can complete one of the three needles, which have no \<open>k\<close>
  and no \<open>i\<close> that is not followed by \<open>e\<close>.\<close>

definition lower_char :: "char \<Rightarrow> char" where
  "lower_char c =
     (case map_of (zip ''ABCDEFGHIJKLMNOPQRSTUVWXYZ'' ''abcdefghijklmnopqrstuvwxyz'') c of
        Some d \<Rightarrow> d
      | None \<Rightarrow> c)"

definition lower :: "string \<Rightarrow> string" where
  "lower s = map lower_char s"

fun py_in :: "string \<Rightarrow> string \<Rightarrow> bool" where
  "py_in needle [] = (needle = [])"
| "py_in needle (c # cs) = (take (length needle) (c # cs) = needle \<or> py_in needle cs)"

definition endswith :: "string \<Rightarrow> string \<Rightarrow> bool" where
  "endswith s suffix =
     (length suffix \<le> length s \<and> drop (length s - length suffix) s = suffix)"

definition startswith :: "string \<Rightarrow> string \<Rightarrow> bool" where
  "startswith s pre = (take (length pre) s = pre)"

definition or_empty :: "string option \<Rightarrow> string" where
  "or_empty x = (case x of None \<Rightarrow> [] | Some s \<Rightarrow> s)"

text \<open>Truth value of a variable that holds \<open>None\<close> or a string: \<open>if overview_html\<close>.\<close>

definition truthy :: "string option \<Rightarrow> bool" where
  "truthy x = (case x of None \<Rightarrow> False | Some s \<Rightarrow> s \<noteq> [])"

text \<open>\<open>os.path.join(a, b)\<close> on a POSIX system, for two components.\<close>

definition path_join :: "string \<Rightarrow> string \<Rightarrow> string" where
  "path_join a b =
     (if startswith b ''/'' then b
      else if a = [] \<or> endswith a ''/'' then a @ b
      else a @ ''/'' @ b)"


section \<open>The environment of a run\<close>

text \<open>
  What the script takes from outside its own code: the standard library's
  \<open>urlparse(url).path\<close> (a parameter: the script only reads the \<open>path\<close> of the result),
  the clock \<open>time.time()\<close>, and whether \<open>os.makedirs\<close> and the
  \<open>with open(...) as f: f.write(...)\<close> block return or raise \<open>OSError\<close>.
  \<open>urlparse\<close> and \<open>time.time\<close> are taken to return, as are \<open>page.on\<close> and
  \<open>response.css(sel).get()\<close> further down.
\<close>

record env =
  urlparse_path :: "string \<Rightarrow> string"
  time_time :: real
  makedirs_ok :: bool
  open_write_ok :: bool


section \<open>\<open>_make_safe_filename\<close> (lines 44--55)\<close>

text \<open>Line 48: the non-empty segments of the path.\<close>

definition segments :: "string \<Rightarrow> string list" where
  "segments path = filter (\<lambda>seg. seg \<noteq> []) (split_slash path)"

text \<open>Line 51: the sanitization step.\<close>

definition sanitize :: "string \<Rightarrow> string" where
  "sanitize slug = strip_underscores (re_sub slug)"

text \<open>Lines 46--53: the value of \<open>safe\<close> when line 54 is reached.\<close>

definition safe_slug :: "env \<Rightarrow> string \<Rightarrow> string" where
  "safe_slug E url =
     (let parsed_path = urlparse_path E url;
          segs = segments parsed_path;
          slug = (if segs \<noteq> [] then last segs else ''product'');
          safe = sanitize slug
      in if safe = [] then ''product'' else safe)"

text \<open>Lines 54--55: \<open>f"{safe}_{ts}.html"\<close>.\<close>

definition make_safe_filename :: "env \<Rightarrow> string \<Rightarrow> string" where
  "make_safe_filename E url =
     (let safe = safe_slug E url;
          ts = py_int (time_time E)
      in safe @ ''_'' @ str_int ts @ ''.html'')"


section \<open>\<open>start_requests\<close> (lines 14 and 28--42)\<close>







section \<open>The page, its responses, and the response handed to \<open>parse\<close>\<close>

text \<open>
  A response seen by the browser page: its URL, its \<open>content-type\<close> header (both may be
  missing, hence \<open>or ""\<close> in the source) and what \<open>await resp.text()\<close> gives: \<open>None\<close> when
  it raises.
\<close>

record resp =
  resp_url :: "string option"
  content_type :: "string option"
  resp_text :: "string option"

text \<open>
  An awaited call on the page: the responses that arrive, and are handed to the listener,
  while the call is awaited, and whether the call returns (\<open>True\<close>) or raises.
\<close>

type_synonym awaited = "resp list \<times> bool"

text \<open>
  The page as \<open>parse\<close> meets it, one field for each call whose result the control flow
  depends on: the click of line 80, the click of line 84, the wait of line 89, the
  \<open>hasattr\<close> test of line 102, and the responses that arrive while the
  \<open>expect_response\<close> block of lines 108--113 is open (the block gives the first one that
  satisfies its predicate, and raises when there is none). The click of line 111 and the
  calls of lines 123 and 127 have their exceptions swallowed on the spot, so their results
  are not recorded. Responses that arrive after line 91 are appended to a list that is not
  read again.
\<close>

record page =
  click_text :: awaited
  click_span :: awaited
  wait_for_timeout :: awaited
  has_expect_response :: bool
  expect_response :: "resp list"

text \<open>The response of the framework: \<open>response.meta.get("playwright_page")\<close>,
  \<open>response.css(sel).get()\<close>, \<open>response.text\<close> and \<open>response.url\<close>.\<close>

record response =
  response_page :: "page option"
  response_css :: "string \<Rightarrow> string option"
  response_text :: string
  response_url :: string

datatype exn = PlaywrightError | OSError

text \<open>The calls that \<open>parse\<close> makes on the page, on the response and on the file system,
  in the order in which it makes them.\<close>

datatype call =
    PageOn
  | Click string
  | WaitForTimeout nat
  | RespText resp
  | ExpectResponse
  | PageOff
  | PageClose
  | CssGet string
  | ResponseText
  | MakeDirs string
  | OpenWrite string

text \<open>The local state of \<open>parse\<close>: the variable \<open>overview_html\<close> and the calls so far.\<close>

record pstate =
  overview_html :: "string option"
  calls :: "call list"

text \<open>A finished invocation: its calls, the files it wrote (path and content), and
  whether it raised or yielded the item \<open>{"file": filepath}\<close>.\<close>

datatype outcome = Raised exn | Yielded string

record run =
  run_calls :: "call list"
  run_files :: "(string \<times> string) list"
  run_outcome :: outcome

definition do_call :: "call \<Rightarrow> pstate \<Rightarrow> pstate" where
  "do_call c s = s\<lparr>calls := calls s @ [c]\<rparr>"


section \<open>\<open>parse\<close> (lines 57--163)\<close>

subsection \<open>The listener (lines 65--73)\<close>

definition is_candidate :: "resp \<Rightarrow> bool" where
  "is_candidate r =
     (let url_lower = lower (or_empty (resp_url r));
          ct = lower (or_empty (content_type r))
      in py_in ''overview'' url_lower \<or> endswith url_lower ''.html'' \<or> py_in ''text/html'' ct)"

definition on_response :: "resp \<Rightarrow> resp list \<Rightarrow> resp list" where
  "on_response r matching_resps =
     (if is_candidate r then matching_resps @ [r] else matching_resps)"

definition deliver :: "resp list \<Rightarrow> resp list \<Rightarrow> resp list" where
  "deliver arrivals matching_resps = foldl (\<lambda>m r. on_response r m) matching_resps arrivals"

subsection \<open>Clicking the tab (lines 78--87)\<close>

definition click_overview :: "page \<Rightarrow> resp list \<Rightarrow> pstate \<Rightarrow> bool \<times> resp list \<times> pstate" where
  "click_overview p m s =
     (let s1 = do_call (Click ''text=Overview'') s;
          m1 = deliver (fst (click_text p)) m
      in if snd (click_text p) then (True, m1, s1)
         else (let s2 = do_call (Click ''span.p-tabview-title:has-text('Overview')'') s1;
                   m2 = deliver (fst (click_span p)) m1
               in if snd (click_span p) then (True, m2, s2) else (False, m2, s2)))"

subsection \<open>Reading the last captured response (lines 91--97)\<close>

definition listener_read :: "resp list \<Rightarrow> pstate \<Rightarrow> pstate" where
  "listener_read matching_resps s =
     (if matching_resps \<noteq> [] then
        (let resp_obj = last matching_resps;
             s1 = do_call (RespText resp_obj) s
         in case resp_text resp_obj of
              Some h \<Rightarrow> s1\<lparr>overview_html := Some h\<rparr>
            | None \<Rightarrow> s1)
      else s)"

subsection \<open>Waiting for one more response (lines 100--119)\<close>

definition predicate :: "resp \<Rightarrow> bool" where
  "predicate r =
     (py_in ''overview'' (lower (or_empty (resp_url r)))
      \<or> endswith (lower (or_empty (resp_url r))) ''.html''
      \<or> py_in ''text/html'' (lower (or_empty (content_type r))))"

definition expect_tier :: "page \<Rightarrow> bool \<Rightarrow> pstate \<Rightarrow> pstate" where
  "expect_tier p clicked s =
     (if \<not> truthy (overview_html s) then
        (if has_expect_response p then
           (let s1 = do_call ExpectResponse s;
                s2 = (if \<not> clicked then do_call (Click ''text=Overview'') s1 else s1)
            in case find predicate (expect_response p) of
                 None \<Rightarrow> s2
               | Some resp_obj \<Rightarrow>
                   (let s3 = do_call (RespText resp_obj) s2
                    in case resp_text resp_obj of
                         Some h \<Rightarrow> s3\<lparr>overview_html := Some h\<rparr>
                       | None \<Rightarrow> s3))
         else s)
      else s)"

subsection \<open>The \<open>finally\<close> block (lines 121--129)\<close>

definition cleanup :: "pstate \<Rightarrow> pstate" where
  "cleanup s = do_call PageClose (do_call PageOff s)"

subsection \<open>The network tier (lines 62--129)\<close>

text \<open>The \<open>try\<close> of line 77 has a \<open>finally\<close> and no \<open>except\<close>: when the wait of line 89
  raises, the \<open>finally\<close> block runs and the exception leaves \<open>parse\<close>.\<close>

definition network_tier :: "page \<Rightarrow> pstate \<Rightarrow> exn option \<times> pstate" where
  "network_tier p s =
     (let s0 = do_call PageOn s;
          (clicked, m, s1) = click_overview p [] s0;
          s2 = do_call (WaitForTimeout 1400) s1;
          matching_resps = deliver (fst (wait_for_timeout p)) m
      in if snd (wait_for_timeout p)
         then (None, cleanup (expect_tier p clicked (listener_read matching_resps s2)))
         else (Some PlaywrightError, cleanup s2))"

definition network_section :: "response \<Rightarrow> pstate \<Rightarrow> exn option \<times> pstate" where
  "network_section response s =
     (case response_page response of
        None \<Rightarrow> (None, s)
      | Some p \<Rightarrow> network_tier p s)"

subsection \<open>The DOM tier (lines 132--144)\<close>

definition selectors_to_try :: "string list" where
  "selectors_to_try =
     [''div.p-tabview-panels div.p-tabview-panel.p-tabview-panel-active'',
      ''div.p-tabview-panels'',
      ''section#overview'',
      ''div.overview'',
      ''div#overview'']"

fun dom_loop :: "response \<Rightarrow> string list \<Rightarrow> pstate \<Rightarrow> pstate" where
  "dom_loop response [] s = s"
| "dom_loop response (sel # sels) s =
     (let s1 = (do_call (CssGet sel) s)\<lparr>overview_html := response_css response sel\<rparr>
      in if truthy (overview_html s1) then s1 else dom_loop response sels s1)"

definition dom_tier :: "response \<Rightarrow> pstate \<Rightarrow> pstate" where
  "dom_tier response s =
     (if \<not> truthy (overview_html s) then dom_loop response selectors_to_try s else s)"

subsection \<open>The full page (lines 147--150)\<close>

definition full_page_tier :: "response \<Rightarrow> pstate \<Rightarrow> pstate" where
  "full_page_tier response s =
     (if \<not> truthy (overview_html s)
      then (do_call ResponseText s)\<lparr>overview_html := Some (response_text response)\<rparr>
      else s)"

subsection \<open>Saving (lines 153--163)\<close>

definition save :: "env \<Rightarrow> response \<Rightarrow> pstate \<Rightarrow> run" where
  "save E response s =
     (let out_dir = ''overview'';
          s1 = do_call (MakeDirs out_dir) s
      in if \<not> makedirs_ok E
         then \<lparr>run_calls = calls s1, run_files = [], run_outcome = Raised OSError\<rparr>
         else
           (let filename = make_safe_filename E (response_url response);
                filepath = path_join out_dir filename;
                s2 = do_call (OpenWrite filepath) s1
            in if \<not> open_write_ok E
               then \<lparr>run_calls = calls s2, run_files = [], run_outcome = Raised OSError\<rparr>
               else \<lparr>run_calls = calls s2,
                     run_files = [(filepath, or_empty (overview_html s2))],
                     run_outcome = Yielded filepath\<rparr>))"

subsection \<open>The whole of \<open>parse\<close>\<close>

definition initial :: pstate where
  "initial = \<lparr>overview_html = None, calls = []\<rparr>"

definition parse :: "env \<Rightarrow> response \<Rightarrow> run" where
  "parse E response =
     (case network_section response initial of
        (Some e, s) \<Rightarrow> \<lparr>run_calls = calls s, run_files = [], run_outcome = Raised e\<rparr>
      | (None, s) \<Rightarrow> save E response (full_page_tier response (dom_tier response s)))"


section \<open>The quantities the properties are stated in\<close>

text \<open>Whether the network tier let an exception out, and the value of \<open>overview_html\<close>
  when line 131 is reached.\<close>

definition network_raised :: "response \<Rightarrow> exn option" where
  "network_raised r = fst (network_section r initial)"

definition network_html :: "response \<Rightarrow> string option" where
  "network_html r = overview_html (snd (network_section r initial))"

text \<open>A selector matches when \<open>response.css(sel).get()\<close> is a non-empty string.\<close>

definition dom_match :: "response \<Rightarrow> string \<Rightarrow> bool" where
  "dom_match r sel = truthy (response_css r sel)"

text \<open>The fallback chain in the words of the specification: the network fragment, else
  the HTML of the first selector that matches, else the whole page.\<close>

definition fallback_chain :: "response \<Rightarrow> string" where
  "fallback_chain r =
     (if truthy (network_html r) then or_empty (network_html r)
      else (case find (dom_match r) selectors_to_try of
              Some sel \<Rightarrow> or_empty (response_css r sel)
            | None \<Rightarrow> response_text r))"

text \<open>The path of line 157.\<close>

definition filepath :: "env \<Rightarrow> response \<Rightarrow> string" where
  "filepath E r = path_join ''overview'' (make_safe_filename E (response_url r))"


text \<open>The candidates in \<open>matching_resps\<close> when line 91 is reached: those among the
  responses that arrived during the clicks that were made and during the wait.\<close>

definition captured :: "page \<Rightarrow> resp list" where
  "captured p =
     filter is_candidate
       (fst (click_text p) @ (if snd (click_text p) then [] else fst (click_span p))
        @ fst (wait_for_timeout p))"

text \<open>The value of \<open>clicked\<close> when line 89 is reached.\<close>

definition clicked :: "page \<Rightarrow> bool" where
  "clicked p = (snd (click_text p) \<or> snd (click_span p))"

text \<open>The selectors of a list up to and including the first one that matches.\<close>

definition consulted :: "response \<Rightarrow> string list \<Rightarrow> string list" where
  "consulted r sels =
     takeWhile (\<lambda>sel. \<not> dom_match r sel) sels
     @ take 1 (dropWhile (\<lambda>sel. \<not> dom_match r sel) sels)"




text \<open>The calls of each part of \<open>parse\<close> and the value of \<open>overview_html\<close> after the
  listener and after the \<open>expect_response\<close> block, written out from the results of the
  page; the lemmas of the last sections prove that \<open>parse\<close> makes exactly these calls.\<close>

definition click_calls :: "page \<Rightarrow> call list" where
  "click_calls p =
     Click ''text=Overview''
     # (if snd (click_text p) then [] else [Click ''span.p-tabview-title:has-text('Overview')''])"

definition listener_html :: "page \<Rightarrow> string option" where
  "listener_html p = (if captured p = [] then None else resp_text (last (captured p)))"

definition listener_calls :: "page \<Rightarrow> call list" where
  "listener_calls p = (if captured p = [] then [] else [RespText (last (captured p))])"

definition expect_calls :: "page \<Rightarrow> call list" where
  "expect_calls p =
     (if truthy (listener_html p) \<or> \<not> has_expect_response p then []
      else ExpectResponse
           # (if clicked p then [] else [Click ''text=Overview''])
           @ (case find predicate (expect_response p) of
                None \<Rightarrow> []
              | Some x \<Rightarrow> [RespText x]))"


definition network_calls :: "page \<Rightarrow> call list" where
  "network_calls p =
     PageOn # click_calls p @ [WaitForTimeout 1400]
     @ (if snd (wait_for_timeout p) then listener_calls p @ expect_calls p else [])
     @ [PageOff, PageClose]"

definition net_calls :: "response \<Rightarrow> call list" where
  "net_calls r = (case response_page r of None \<Rightarrow> [] | Some p \<Rightarrow> network_calls p)"

definition dom_calls :: "response \<Rightarrow> call list" where
  "dom_calls r =
     (if truthy (network_html r) then [] else map CssGet (consulted r selectors_to_try))"

definition full_calls :: "response \<Rightarrow> call list" where
  "full_calls r =
     (if truthy (network_html r) \<or> find (dom_match r) selectors_to_try \<noteq> None then []
      else [ResponseText])"

definition save_calls :: "env \<Rightarrow> response \<Rightarrow> call list" where
  "save_calls E r =
     MakeDirs ''overview'' # (if makedirs_ok E then [OpenWrite (filepath E r)] else [])"


section \<open>Concrete runs\<close>

text \<open>The start URL with the path that \<open>urlparse\<close> gives for it, a clock reading, four
  responses (a fragment, one whose text cannot be read, one with an empty text, an image
  that is no candidate), and pages on which the clicks, the reads or the wait fail.\<close>

definition ex_url :: string where
  "ex_url = ''https://shop.unicornstore.in/product/iphone-15-black-128-gb''"

definition ex_urlparse_path :: "string \<Rightarrow> string" where
  "ex_urlparse_path url =
     (if url = ''https://shop.unicornstore.in/product/iphone-15-black-128-gb''
      then ''/product/iphone-15-black-128-gb''
      else if url = ''https://shop.unicornstore.in/!!!'' then ''/!!!''
      else ''/'')"

definition ex_env :: env where
  "ex_env = \<lparr>urlparse_path = ex_urlparse_path, time_time = 1762198334.75,
     makedirs_ok = True, open_write_ok = True\<rparr>"

definition ex_fragment :: resp where
  "ex_fragment = \<lparr>resp_url = Some ''https://shop.unicornstore.in/api/Overview?id=15'',
     content_type = Some ''application/json'', resp_text = Some ''<p>A15 Bionic</p>''\<rparr>"

definition ex_unreadable :: resp where
  "ex_unreadable = \<lparr>resp_url = Some ''https://shop.unicornstore.in/tabs/specs.HTML'',
     content_type = None, resp_text = None\<rparr>"

definition ex_empty :: resp where
  "ex_empty = \<lparr>resp_url = Some ''https://shop.unicornstore.in/go'',
     content_type = Some ''Text/HTML; charset=utf-8'', resp_text = Some []\<rparr>"

definition ex_image :: resp where
  "ex_image = \<lparr>resp_url = Some ''https://shop.unicornstore.in/img/front.png'',
     content_type = Some ''image/png'', resp_text = Some ''PNG''\<rparr>"

definition ex_page_network :: page where
  "ex_page_network = \<lparr>click_text = ([ex_image], False), click_span = ([ex_empty], True),
     wait_for_timeout = ([ex_image, ex_fragment], True),
     has_expect_response = True, expect_response = []\<rparr>"

definition ex_page_failing :: page where
  "ex_page_failing = \<lparr>click_text = ([], False), click_span = ([ex_unreadable], False),
     wait_for_timeout = ([ex_image], True),
     has_expect_response = True, expect_response = [ex_image]\<rparr>"

definition ex_page_empty_text :: page where
  "ex_page_empty_text = \<lparr>click_text = ([ex_empty], True), click_span = ([], True),
     wait_for_timeout = ([], True),
     has_expect_response = True, expect_response = []\<rparr>"

definition ex_page_closed :: page where
  "ex_page_closed = \<lparr>click_text = ([], True), click_span = ([], True),
     wait_for_timeout = ([], False),
     has_expect_response = True, expect_response = []\<rparr>"

definition ex_css_overview :: "string \<Rightarrow> string option" where
  "ex_css_overview sel =
     (if sel = ''div.overview'' then Some ''<div class=overview>Specs</div>''
      else if sel = ''div#overview'' then Some ''<div id=overview>Other</div>''
      else None)"

definition ex_response :: "page option \<Rightarrow> (string \<Rightarrow> string option) \<Rightarrow> response" where
  "ex_response pg css = \<lparr>response_page = pg, response_css = css,
     response_text = ''<html><body>iPhone 15</body></html>'',
     response_url = ''https://shop.unicornstore.in/product/iphone-15-black-128-gb''\<rparr>"


section \<open>Properties of the file name\<close>

lemmas string_defs = lower_def lower_char_def endswith_def startswith_def or_empty_def
  truthy_def slug_char_def in_range_def strip_underscores_def str_int_def py_int_def
  path_join_def

lemmas filename_defs = make_safe_filename_def safe_slug_def segments_def sanitize_def
  filepath_def

lemmas parse_defs = parse_def network_section_def network_tier_def click_overview_def
  listener_read_def expect_tier_def cleanup_def deliver_def on_response_def
  is_candidate_def predicate_def dom_tier_def selectors_to_try_def full_page_tier_def
  save_def initial_def do_call_def network_raised_def network_html_def dom_match_def
  fallback_chain_def

lemmas ex_defs = ex_url_def ex_urlparse_path_def ex_env_def ex_fragment_def
  ex_unreadable_def ex_empty_def ex_image_def ex_page_network_def ex_page_failing_def
  ex_page_empty_text_def ex_page_closed_def ex_css_overview_def ex_response_def


lemma slug_char_iff: "slug_char c \<longleftrightarrow> c \<in> set slug_alphabet"
  by (cases c) (simp add: slug_char_def in_range_def slug_alphabet_def)

lemma re_sub_chars: "c \<in> set (re_sub s) \<Longrightarrow> slug_char c"
proof (induction s rule: re_sub.induct)
  case 1
  then show ?case by simp
next
  case (2 d ds)
  then show ?case
    by (auto simp: slug_char_def split: if_splits)
qed

lemma set_strip_underscores: "set (strip_underscores s) \<subseteq> set s"
proof -
  have "set (strip_underscores s) \<subseteq> set (dropWhile (\<lambda>c. c = CHR ''_'') s)"
    unfolding strip_underscores_def using set_dropWhileD by fastforce
  also have "\<dots> \<subseteq> set s"
    using set_dropWhileD by fastforce
  finally show ?thesis .
qed

lemma sanitize_chars: "c \<in> set (sanitize s) \<Longrightarrow> slug_char c"
  unfolding sanitize_def using set_strip_underscores re_sub_chars by blast

lemma product_chars: "c \<in> set ''product'' \<Longrightarrow> slug_char c"
  by (auto simp: slug_char_def in_range_def)

lemma safe_slug_chars: "c \<in> set (safe_slug E url) \<Longrightarrow> slug_char c"
  unfolding safe_slug_def Let_def
  using sanitize_chars product_chars by (auto split: if_splits)

lemma safe_slug_nonempty: "safe_slug E url \<noteq> []"
  by (simp add: safe_slug_def Let_def)

lemma sanitize_product: "sanitize ''product'' = ''product''"
  by (simp add: sanitize_def strip_underscores_def slug_char_def in_range_def)

text \<open>
  C2: for every slug the sanitization step (substitution, then stripping of underscores)
  returns only characters of \<open>[0-9a-zA-Z_-]\<close>, and so does the slug that
  \<open>_make_safe_filename\<close> goes on with, for every URL and every result of \<open>urlparse\<close>.
\<close>

theorem sanitize_alphabet:
  "set (sanitize slug) \<subseteq> set slug_alphabet \<and> set (safe_slug E url) \<subseteq> set slug_alphabet"
  using sanitize_chars safe_slug_chars slug_char_iff by blast

theorem sanitize_alphabet_witness:
  "sanitize ''__iphone 15 (black)/128!'' = ''iphone_15_black_128''
   \<and> set (sanitize ''__iphone 15 (black)/128!'') \<subseteq> set slug_alphabet"
  using sanitize_alphabet [of "''__iphone 15 (black)/128!''"]
  by (simp add: sanitize_def strip_underscores_def slug_char_def in_range_def)

text \<open>
  C7: when the path has no non-empty segment, or the sanitized last segment is empty, the
  slug is \<open>product\<close>; for every URL the slug is non-empty, and it is the part of the file
  name before \<open>_<timestamp>.html\<close>.
\<close>

theorem default_slug:
  "(segments (urlparse_path E url) = []
      \<or> sanitize (last (segments (urlparse_path E url))) = []
    \<longrightarrow> safe_slug E url = ''product'')
   \<and> safe_slug E url \<noteq> []
   \<and> make_safe_filename E url
       = safe_slug E url @ ''_'' @ str_int (py_int (time_time E)) @ ''.html''"
proof -
  have "safe_slug E url = ''product''" if "segments (urlparse_path E url) = []"
    using that sanitize_product by (simp add: safe_slug_def Let_def)
  moreover have "safe_slug E url = ''product''"
    if "sanitize (last (segments (urlparse_path E url))) = []"
    using that sanitize_product by (simp add: safe_slug_def Let_def)
  ultimately show ?thesis
    using safe_slug_nonempty by (auto simp: make_safe_filename_def Let_def)
qed

theorem default_slug_witness:
  "sanitize (last (segments (urlparse_path ex_env ''https://shop.unicornstore.in/!!!''))) = []
   \<and> segments (urlparse_path ex_env ''https://shop.unicornstore.in/'') = []
   \<and> safe_slug ex_env ''https://shop.unicornstore.in/!!!'' = ''product''
   \<and> safe_slug ex_env ''https://shop.unicornstore.in/'' = ''product''
   \<and> make_safe_filename ex_env ''https://shop.unicornstore.in/'' = ''product_1762198334.html''"
proof -
  have a: "sanitize (last (segments (urlparse_path ex_env ''https://shop.unicornstore.in/!!!''))) = []"
    by (simp add: filename_defs string_defs ex_env_def ex_urlparse_path_def)
  have b: "segments (urlparse_path ex_env ''https://shop.unicornstore.in/'') = []"
    by (simp add: filename_defs ex_env_def ex_urlparse_path_def)
  have c: "str_int (py_int (time_time ex_env)) = ''1762198334''"
    by (simp add: string_defs ex_env_def)
  from a b c default_slug [of ex_env "''https://shop.unicornstore.in/!!!''"]
    default_slug [of ex_env "''https://shop.unicornstore.in/''"]
  show ?thesis by simp
qed


section \<open>The result of \<open>parse\<close>\<close>

lemma overview_html_do_call [simp]: "overview_html (do_call c s) = overview_html s"
  by (simp add: do_call_def)

lemma calls_do_call [simp]: "calls (do_call c s) = calls s @ [c]"
  by (simp add: do_call_def)

lemma dom_loop_found:
  "find (dom_match r) sels = Some sel \<Longrightarrow> overview_html (dom_loop r sels s) = response_css r sel"
  by (induction sels arbitrary: s) (auto simp: dom_match_def Let_def split: if_splits)

lemma dom_loop_none:
  "find (dom_match r) sels = None \<Longrightarrow> \<not> truthy (overview_html s)
     \<Longrightarrow> \<not> truthy (overview_html (dom_loop r sels s))"
  by (induction sels arbitrary: s) (auto simp: dom_match_def Let_def split: if_splits)

lemma find_dom_match_truthy:
  "find (dom_match r) sels = Some sel \<Longrightarrow> truthy (response_css r sel)"
  by (induction sels) (auto simp: dom_match_def split: if_splits)

lemma chain_html:
  "or_empty (overview_html (full_page_tier r (dom_tier r s)))
     = (if truthy (overview_html s) then or_empty (overview_html s)
        else (case find (dom_match r) selectors_to_try of
                Some sel \<Rightarrow> or_empty (response_css r sel)
              | None \<Rightarrow> response_text r))"
proof (cases "truthy (overview_html s)")
  case True
  then show ?thesis by (simp add: full_page_tier_def dom_tier_def)
next
  case False
  show ?thesis
  proof (cases "find (dom_match r) selectors_to_try")
    case None
    with False have "\<not> truthy (overview_html (dom_loop r selectors_to_try s))"
      by (simp add: dom_loop_none)
    with False None show ?thesis
      by (simp add: full_page_tier_def dom_tier_def or_empty_def)
  next
    case (Some sel)
    then have "overview_html (dom_loop r selectors_to_try s) = response_css r sel"
      and "truthy (response_css r sel)"
      by (simp_all add: dom_loop_found find_dom_match_truthy)
    with False Some show ?thesis
      by (simp add: full_page_tier_def dom_tier_def)
  qed
qed

lemma save_ok:
  "makedirs_ok E \<Longrightarrow> open_write_ok E \<Longrightarrow>
   run_outcome (save E r s) = Yielded (filepath E r)
   \<and> run_files (save E r s) = [(filepath E r, or_empty (overview_html s))]"
  by (simp add: save_def filepath_def Let_def)

lemma save_outcome:
  "run_outcome (save E r s) = Yielded path \<longleftrightarrow>
     makedirs_ok E \<and> open_write_ok E \<and> path = filepath E r"
  by (auto simp: save_def filepath_def Let_def)


lemma parse_yields:
  assumes "network_raised r = None" "makedirs_ok E" "open_write_ok E"
  shows "run_outcome (parse E r) = Yielded (filepath E r)
         \<and> run_files (parse E r) = [(filepath E r, fallback_chain r)]"
proof -
  obtain s where s: "network_section r initial = (None, s)"
    using assms(1) by (cases "network_section r initial") (simp add: network_raised_def)
  then have "network_html r = overview_html s"
    by (simp add: network_html_def)
  with s assms(2,3) show ?thesis
    by (simp add: parse_def save_ok chain_html fallback_chain_def)
qed

lemma parse_outcome:
  "run_outcome (parse E r) = Yielded path \<longleftrightarrow>
     network_raised r = None \<and> makedirs_ok E \<and> open_write_ok E \<and> path = filepath E r"
  by (cases "network_section r initial")
     (auto simp: parse_def network_raised_def save_outcome split: option.splits)


section \<open>The calls of \<open>parse\<close>\<close>

lemma deliver_filter: "deliver arrivals m = m @ filter is_candidate arrivals"
  unfolding deliver_def
  by (induction arrivals arbitrary: m) (simp_all add: on_response_def)

lemma click_overview_clicked: "fst (click_overview p m s) = clicked p"
  by (simp add: click_overview_def clicked_def Let_def)

lemma click_overview_matching:
  "fst (snd (click_overview p m s))
     = m @ filter is_candidate
             (fst (click_text p) @ (if snd (click_text p) then [] else fst (click_span p)))"
  by (simp add: click_overview_def deliver_filter Let_def)

lemma click_overview_calls:
  "calls (snd (snd (click_overview p m s))) = calls s @ click_calls p"
  by (simp add: click_overview_def click_calls_def Let_def)

lemma click_overview_html:
  "overview_html (snd (snd (click_overview p m s))) = overview_html s"
  by (simp add: click_overview_def Let_def)

lemma listener_read_html:
  "overview_html s = None \<Longrightarrow>
   overview_html (listener_read m s) = (if m = [] then None else resp_text (last m))"
  by (simp add: listener_read_def Let_def split: option.splits)

lemma listener_read_calls:
  "calls (listener_read m s) = calls s @ (if m = [] then [] else [RespText (last m)])"
  by (simp add: listener_read_def Let_def split: option.splits)

lemma expect_tier_calls:
  "calls (expect_tier p c s) =
     calls s @ (if truthy (overview_html s) \<or> \<not> has_expect_response p then []
                else ExpectResponse # (if c then [] else [Click ''text=Overview''])
                     @ (case find predicate (expect_response p) of
                          None \<Rightarrow> [] | Some x \<Rightarrow> [RespText x]))"
  by (simp add: expect_tier_def Let_def split: option.splits)


lemma cleanup_calls: "calls (cleanup s) = calls s @ [PageOff, PageClose]"
  by (simp add: cleanup_def)


lemma network_tier_unfold:
  "network_tier p s =
     (let t = click_overview p [] (do_call PageOn s);
          s2 = do_call (WaitForTimeout 1400) (snd (snd t));
          matching_resps = deliver (fst (wait_for_timeout p)) (fst (snd t))
      in if snd (wait_for_timeout p)
         then (None, cleanup (expect_tier p (fst t) (listener_read matching_resps s2)))
         else (Some PlaywrightError, cleanup s2))"
  by (simp add: network_tier_def Let_def split: prod.splits)

lemma matching_at_line_91:
  "deliver (fst (wait_for_timeout p)) (fst (snd (click_overview p [] s))) = captured p"
  by (simp add: deliver_filter click_overview_matching captured_def)

lemma network_tier_raised:
  "fst (network_tier p s) = (if snd (wait_for_timeout p) then None else Some PlaywrightError)"
  by (simp add: network_tier_unfold Let_def)

lemma network_tier_calls:
  "overview_html s = None \<Longrightarrow> calls (snd (network_tier p s)) = calls s @ network_calls p"
  by (simp add: network_tier_unfold Let_def matching_at_line_91 cleanup_calls
      expect_tier_calls listener_read_calls listener_read_html click_overview_calls
      click_overview_html click_overview_clicked network_calls_def listener_calls_def
      expect_calls_def listener_html_def split: option.splits)


lemma network_raised_eq:
  "network_raised r =
     (case response_page r of
        None \<Rightarrow> None
      | Some p \<Rightarrow> if snd (wait_for_timeout p) then None else Some PlaywrightError)"
  by (simp add: network_raised_def network_section_def network_tier_raised split: option.splits)



lemma network_section_calls: "calls (snd (network_section r initial)) = net_calls r"
  by (simp add: network_section_def net_calls_def network_tier_calls initial_def
      split: option.splits)

lemma dom_loop_calls: "calls (dom_loop r sels s) = calls s @ map CssGet (consulted r sels)"
  by (induction sels arbitrary: s) (auto simp: consulted_def dom_match_def Let_def)

lemma dom_tier_calls:
  "calls (dom_tier r s) =
     calls s @ (if truthy (overview_html s) then [] else map CssGet (consulted r selectors_to_try))"
  by (simp add: dom_tier_def dom_loop_calls)

lemma dom_tier_truthy:
  "truthy (overview_html (dom_tier r s))
     = (truthy (overview_html s) \<or> find (dom_match r) selectors_to_try \<noteq> None)"
proof (cases "find (dom_match r) selectors_to_try")
  case None
  then show ?thesis using dom_loop_none [of r selectors_to_try s] by (auto simp: dom_tier_def)
next
  case (Some sel)
  then show ?thesis
    using dom_loop_found [of r selectors_to_try sel s] find_dom_match_truthy [of r selectors_to_try sel]
    by (auto simp: dom_tier_def)
qed

lemma full_page_tier_calls:
  "calls (full_page_tier r s) = calls s @ (if truthy (overview_html s) then [] else [ResponseText])"
  by (simp add: full_page_tier_def)

lemma save_calls_eq: "run_calls (save E r s) = calls s @ save_calls E r"
  by (simp add: save_def save_calls_def filepath_def Let_def)

lemma parse_calls:
  "run_calls (parse E r) =
     net_calls r
     @ (if network_raised r = None then dom_calls r @ full_calls r @ save_calls E r else [])"
proof (cases "network_section r initial")
  case (Pair e s)
  then have s: "calls s = net_calls r" "network_raised r = e" "network_html r = overview_html s"
    using network_section_calls [of r] by (simp_all add: network_raised_def network_html_def)
  show ?thesis
  proof (cases e)
    case None
    with Pair s show ?thesis
      by (simp add: parse_def save_calls_eq full_page_tier_calls dom_tier_calls dom_tier_truthy
          dom_calls_def full_calls_def)
  next
    case (Some x)
    with Pair s show ?thesis by (simp add: parse_def)
  qed
qed


section \<open>Counting calls\<close>

lemma hd_safe_slug: "hd (safe_slug E url) \<noteq> CHR ''/''"
proof -
  have "hd (safe_slug E url) \<in> set (safe_slug E url)"
    using safe_slug_nonempty by simp
  then have "slug_char (hd (safe_slug E url))"
    by (rule safe_slug_chars)
  moreover have "\<not> slug_char (CHR ''/'')"
    by (simp add: slug_char_def in_range_def)
  ultimately show ?thesis by auto
qed

lemma filepath_eq:
  "filepath E r = ''overview/'' @ safe_slug E (response_url r) @ ''_''
                  @ str_int (py_int (time_time E)) @ ''.html''"
proof -
  obtain c cs where "safe_slug E (response_url r) = c # cs"
    using safe_slug_nonempty by (cases "safe_slug E (response_url r)") auto
  moreover from this have "c \<noteq> CHR ''/''"
    using hd_safe_slug [of E "response_url r"] by simp
  ultimately show ?thesis
    by (simp add: filepath_def path_join_def startswith_def endswith_def
        make_safe_filename_def Let_def)
qed






















section \<open>The concrete runs, evaluated\<close>

text \<open>One run, by unfolding the definitions of \<open>parse\<close> alone.\<close>

lemma parse_evaluated:
  "parse ex_env (ex_response (Some ex_page_network) ex_css_overview) =
     \<lparr>run_calls =
        [PageOn, Click ''text=Overview'', Click ''span.p-tabview-title:has-text('Overview')'',
         WaitForTimeout 1400, RespText ex_fragment, PageOff, PageClose,
         MakeDirs ''overview'', OpenWrite ''overview/iphone-15-black-128-gb_1762198334.html''],
      run_files = [(''overview/iphone-15-black-128-gb_1762198334.html'', ''<p>A15 Bionic</p>'')],
      run_outcome = Yielded ''overview/iphone-15-black-128-gb_1762198334.html''\<rparr>"
  by (simp add: parse_defs filename_defs string_defs ex_defs Let_def)

lemma ex_filepath:
  "filepath ex_env (ex_response pg css) = ''overview/iphone-15-black-128-gb_1762198334.html''"
  by (simp add: filename_defs string_defs ex_defs Let_def)





lemma ex_outcome:
  "pg = None \<or> pg = Some ex_page_network \<or> pg = Some ex_page_failing
     \<or> pg = Some ex_page_empty_text \<Longrightarrow>
   run_outcome (parse ex_env (ex_response pg css))
     = Yielded ''overview/iphone-15-black-128-gb_1762198334.html''"
  by (auto simp: parse_outcome network_raised_eq ex_filepath)
     (simp_all add: ex_response_def ex_env_def ex_page_network_def ex_page_failing_def
        ex_page_empty_text_def)

lemma ex_network_outcome:
  "run_outcome (parse ex_env (ex_response (Some ex_page_network) ex_css_overview))
     = Yielded ''overview/iphone-15-black-128-gb_1762198334.html''"
  by (simp add: ex_outcome)





section \<open>The fallback chain, the file and the failures\<close>



text \<open>
  C3: in every completed run, the file is \<open>overview/<slug>_<timestamp>.html\<close>: the slug
  has no \<open>/\<close>, so the file lies in the directory \<open>overview\<close>, which the run has asked
  \<open>os.makedirs\<close> for; the slug is the sanitized last non-empty segment of the path of
  \<open>response.url\<close> (when there is one and its sanitized form is not empty); the timestamp
  is the clock reading cut to an integer (its floor, for a time that is not before 1970);
  and the path yielded is the path written.
\<close>

theorem output_file_name:
  assumes "run_outcome (parse E r) = Yielded path"
  shows "path = ''overview/'' @ safe_slug E (response_url r) @ ''_''
                @ str_int (py_int (time_time E)) @ ''.html''
     \<and> CHR ''/'' \<notin> set (safe_slug E (response_url r))
     \<and> MakeDirs ''overview'' \<in> set (run_calls (parse E r))
     \<and> map fst (run_files (parse E r)) = [path]
     \<and> (segments (urlparse_path E (response_url r)) \<noteq> []
          \<and> sanitize (last (segments (urlparse_path E (response_url r)))) \<noteq> []
        \<longrightarrow> safe_slug E (response_url r)
              = sanitize (last (segments (urlparse_path E (response_url r)))))
     \<and> (0 \<le> time_time E \<longrightarrow> py_int (time_time E) = \<lfloor>time_time E\<rfloor>)"
proof -
  from assms have ok: "network_raised r = None" "makedirs_ok E" "open_write_ok E"
    and path: "path = filepath E r"
    by (simp_all add: parse_outcome)
  then have "run_files (parse E r) = [(path, fallback_chain r)]"
    using parse_yields by simp
  moreover have "CHR ''/'' \<notin> set (safe_slug E (response_url r))"
    using safe_slug_chars [of "CHR ''/''" E "response_url r"]
    by (auto simp: slug_char_def in_range_def)
  moreover have "MakeDirs ''overview'' \<in> set (run_calls (parse E r))"
    using ok(1) by (simp add: parse_calls save_calls_def)
  ultimately show ?thesis
    using path by (simp add: filepath_eq safe_slug_def py_int_def Let_def)
qed

theorem output_file_name_witness:
  "run_outcome (parse ex_env (ex_response (Some ex_page_network) ex_css_overview))
     = Yielded ''overview/iphone-15-black-128-gb_1762198334.html''
   \<and> ''overview/iphone-15-black-128-gb_1762198334.html''
     = ''overview/'' @ sanitize (last (segments (urlparse_path ex_env ex_url))) @ ''_''
       @ str_int \<lfloor>time_time ex_env\<rfloor> @ ''.html''
   \<and> map fst (run_files (parse ex_env (ex_response (Some ex_page_network) ex_css_overview)))
     = [''overview/iphone-15-black-128-gb_1762198334.html'']"
proof -
  have "segments (urlparse_path ex_env (response_url (ex_response (Some ex_page_network) ex_css_overview))) \<noteq> []"
    and "sanitize (last (segments (urlparse_path ex_env (response_url (ex_response (Some ex_page_network) ex_css_overview))))) \<noteq> []"
    and "0 \<le> time_time ex_env"
    and "response_url (ex_response (Some ex_page_network) ex_css_overview) = ex_url"
    by (simp_all add: filename_defs string_defs ex_defs)
  with output_file_name [OF ex_network_outcome] ex_network_outcome show ?thesis
    by simp
qed




section \<open>One request, at most one file\<close>




section \<open>No call is repeated\<close>









section \<open>The order of the selectors\<close>








section \<open>The response that is read\<close>






end
